theory Spec2Isabelle
  imports Main "HOL-Library.Word"
begin

section \<open>JavaScript values used by the handlers\<close>

text \<open>
  A header, a query parameter and an environment variable are each a string or
  \<open>undefined\<close>: \<open>string option\<close>, with \<open>None\<close> for \<open>undefined\<close>.
  The upload handlers are modelled on requests whose query parameters are plain strings
  (one occurrence of the parameter, no bracket syntax). The listing handler copies a query
  parameter into the database filter without a type test, so for \<open>GET /images\<close> the
  values that the query parser delivers as arrays (a repeated parameter) or as objects
  (bracket syntax) are modelled too, one level deep: type \<open>qval\<close>.
\<close>

definition truthy :: "string option \<Rightarrow> bool" where
  \<comment> \<open>JavaScript truthiness of a string or undefined: the empty string is falsy.\<close>
  "truthy v = (case v of None \<Rightarrow> False | Some s \<Rightarrow> s \<noteq> [])"

definition js_or :: "string option \<Rightarrow> string option \<Rightarrow> string option" where
  \<comment> \<open>\<open>a || b\<close>\<close>
  "js_or a b = (if truthy a then a else b)"

definition or_default :: "string option \<Rightarrow> string \<Rightarrow> string" where
  \<comment> \<open>\<open>a || "literal"\<close>\<close>
  "or_default a d = (case a of None \<Rightarrow> d | Some s \<Rightarrow> if s \<noteq> [] then s else d)"

type_synonym byte = "8 word"

datatype js_body =
    BodyUndefined
  | BodyBuffer "byte list"
  | BodyObject "int option"
  \<comment> \<open>\<open>req.body\<close> as the body parsers leave it: undefined, the Buffer of
      \<open>express.raw\<close>, or a non-Buffer object with the value of its numeric
      \<open>length\<close> property when it has one. \<open>BodyObject None\<close> is \<open>{}\<close>, which
      the parsers of Express 4 leave for a request that has no body.\<close>

datatype js_error = JsError (err_string: string) (err_message: "string option")
  \<comment> \<open>a thrown value: what \<open>String(err)\<close> gives, and its \<open>message\<close> property\<close>

definition err_brief :: "js_error \<Rightarrow> string" where
  \<comment> \<open>\<open>err.message || err\<close>, as the console prints it\<close>
  "err_brief e = or_default (err_message e) (err_string e)"

datatype objectid = ObjectId (oid_time: nat) (oid_rest: nat)
  \<comment> \<open>a MongoDB ObjectId: its leading timestamp (seconds) and the remaining bytes\<close>

definition getTimestamp :: "objectid \<Rightarrow> int" where
  \<comment> \<open>milliseconds since the epoch\<close>
  "getTimestamp i = int (oid_time i) * 1000"

datatype json =
    JBool bool
  | JNum int
  | JStr string
  | JDate int
  | JOid objectid
  | JArr "json list"
  | JObj "(string \<times> json) list"

datatype qval = QStr string | QArr "string list" | QObj "(string \<times> string) list"
  \<comment> \<open>a value of \<open>req.query\<close>: a string, an array (\<open>?k=a&k=b\<close>), or an object
      (\<open>?k[$ne]=a\<close>)\<close>

definition truthy_q :: "qval option \<Rightarrow> bool" where
  \<comment> \<open>arrays and objects are truthy, also when empty\<close>
  "truthy_q v = (case v of None \<Rightarrow> False | Some (QStr s) \<Rightarrow> s \<noteq> [] | Some _ \<Rightarrow> True)"

definition q_or_default :: "qval option \<Rightarrow> string \<Rightarrow> qval" where
  \<comment> \<open>\<open>a || "literal"\<close>\<close>
  "q_or_default a d = (case a of None \<Rightarrow> QStr d | Some v \<Rightarrow> if truthy_q a then v else QStr d)"

fun join_comma :: "string list \<Rightarrow> string" where
  "join_comma [] = []"
| "join_comma [x] = x"
| "join_comma (x # y # ys) = x @ '','' @ join_comma (y # ys)"

definition to_String :: "qval \<Rightarrow> string" where
  \<comment> \<open>the string conversion that \<open>parseInt\<close> applies to its argument\<close>
  "to_String v =
     (case v of
        QStr s \<Rightarrow> s
      | QArr xs \<Rightarrow> join_comma xs
      | QObj ops \<Rightarrow> ''[object Object]'')"

datatype jsnum = NaN | Num int
  \<comment> \<open>the numbers the listing handler computes: an integer or NaN. Integers are
      unbounded here; the rounding of doubles beyond \<open>2^53\<close> is not modelled.\<close>

section \<open>Requests, configuration, collaborators\<close>

record request =
  headers :: "string \<rightharpoonup> string"
  query :: "string \<rightharpoonup> string"
  body :: js_body

text \<open>
  A request to \<open>GET /images\<close>: \<open>query\<close> holds the parameters delivered as strings,
  \<open>nested\<close> those delivered as arrays or objects; \<open>req.query.k\<close> is \<open>query_value\<close>.
\<close>

record images_request = request +
  nested :: "string \<rightharpoonup> qval"

definition query_value :: "images_request \<Rightarrow> string \<Rightarrow> qval option" where
  "query_value req k = (case query req k of Some s \<Rightarrow> Some (QStr s) | None \<Rightarrow> nested req k)"

record env =
  DEVICE_API_KEY :: "string option"
  TELEGRAM_BOT_TOKEN :: "string option"
  TELEGRAM_CHAT_ID :: "string option"

record response =
  res_status :: nat
  res_json :: json

record upload_result =
  secure_url :: string
  public_id :: string
  width :: int
  height :: int
  bytes :: int

text \<open>The fields given to \<open>new Image({...})\<close>.\<close>

record new_image =
  ni_deviceId :: string
  ni_url :: string
  ni_public_id :: string
  ni_width :: int
  ni_height :: int
  ni_bytes :: int

text \<open>
  A document of the \<open>Image\<close> collection (\<open>models/Image.js\<close>): the schema's six
  paths, \<open>_id\<close>, the two timestamps of the \<open>timestamps\<close> option and the version
  key \<open>__v\<close>. The four paths without \<open>required\<close> or \<open>default\<close> may be absent.
\<close>

record image_doc =
  img_id :: objectid
  img_deviceId :: string
  img_url :: string
  img_public_id :: "string option"
  img_width :: "int option"
  img_height :: "int option"
  img_bytes :: "int option"
  img_createdAt :: int
  img_updatedAt :: int
  img_v :: nat

text \<open>
  What the three external services answer during one request. The handlers are written
  against these answers; every theorem below quantifies over them.
\<close>

record outcomes =
  cloud_out :: "js_error + upload_result"
    \<comment> \<open>the callback of \<open>cloudinary.uploader.upload_stream\<close>: error or result\<close>
  save_out :: "js_error + (objectid \<times> int)"
    \<comment> \<open>\<open>imgDoc.save()\<close>: rejection, or the identifier and the time assigned\<close>
  tg_out :: "js_error option"
    \<comment> \<open>\<open>axios.post\<close> to the bot API: the rejection, if any\<close>
  find_out :: "js_error option"
    \<comment> \<open>the rejection of the \<open>Image.find\<close> query, if any\<close>
  now_locale :: string
    \<comment> \<open>\<open>new Date().toLocaleString(...)\<close>\<close>
  op_match :: "(string \<times> string) list \<Rightarrow> image_doc \<Rightarrow> bool"
    \<comment> \<open>whether a document satisfies an operator object given as the filter's
        \<open>deviceId\<close>, as the database decides\<close>

datatype call =
    CloudinaryUpload string js_body
  | ImageSave new_image
  | AxiosPost string string string string
  | ImageFind "qval option" jsnum
  \<comment> \<open>collaborator calls: upload (folder, payload), save, sendPhoto (url, chat id,
      photo, caption), find (deviceId filter, limit)\<close>

datatype log_entry =
    LogReceived
  | LogSaved objectid
  | WarnSaveFailed string
  | WarnTelegramFailed string
  | ErrorUpload js_error
  | ErrorImages js_error

record sys =
  store :: "image_doc list"
  calls :: "call list"
  console :: "log_entry list"

section \<open>POST /upload\<close>

definition apiKey :: "request \<Rightarrow> string option" where
  \<comment> \<open>\<open>req.headers["x-api-key"] || req.query.apiKey\<close>\<close>
  "apiKey req = js_or (headers req ''x-api-key'') (query req ''apiKey'')"

definition deviceId :: "request \<Rightarrow> string" where
  \<comment> \<open>\<open>req.headers["x-device-id"] || req.query.deviceId || "unknown_device"\<close>\<close>
  "deviceId req =
     or_default (js_or (headers req ''x-device-id'') (query req ''deviceId''))
       ''unknown_device''"

definition unauthorized :: "env \<Rightarrow> request \<Rightarrow> bool" where
  \<comment> \<open>\<open>!apiKey || apiKey !== process.env.DEVICE_API_KEY\<close>\<close>
  "unauthorized e req = (\<not> truthy (apiKey req) \<or> apiKey req \<noteq> DEVICE_API_KEY e)"

definition no_image :: "js_body \<Rightarrow> bool" where
  \<comment> \<open>\<open>!buffer || buffer.length === 0\<close>\<close>
  "no_image b =
     (case b of
        BodyUndefined \<Rightarrow> True
      | BodyBuffer bs \<Rightarrow> length bs = 0
      | BodyObject len \<Rightarrow> len = Some 0)"

definition em_dash :: string where
  \<comment> \<open>U+2014 in UTF-8\<close>
  "em_dash = [CHR 0xE2, CHR 0x80, CHR 0x94]"

definition save_image :: "outcomes \<Rightarrow> new_image \<Rightarrow> sys \<Rightarrow> image_doc option \<times> sys" where
  \<comment> \<open>the inner \<open>try { new Image(...).save() } catch (saveErr) { warn }\<close>\<close>
  "save_image w img s =
     (let s1 = s\<lparr>calls := calls s @ [ImageSave img]\<rparr>
      in case save_out w of
           Inl saveErr \<Rightarrow>
             (None, s1\<lparr>console := console s1 @ [WarnSaveFailed (err_brief saveErr)]\<rparr>)
         | Inr (oid, now) \<Rightarrow>
             (let d = \<lparr>img_id = oid, img_deviceId = ni_deviceId img, img_url = ni_url img,
                       img_public_id = Some (ni_public_id img),
                       img_width = Some (ni_width img),
                       img_height = Some (ni_height img),
                       img_bytes = Some (ni_bytes img),
                       img_createdAt = now, img_updatedAt = now, img_v = 0\<rparr>
              in (Some d, s1\<lparr>store := store s1 @ [d],
                              console := console s1 @ [LogSaved oid]\<rparr>)))"

definition notify :: "env \<Rightarrow> outcomes \<Rightarrow> string \<Rightarrow> upload_result \<Rightarrow> sys \<Rightarrow> sys" where
  \<comment> \<open>\<open>if (tgToken && tgChat) { try { await axios.post(...) } catch (tgErr) { warn } }\<close>\<close>
  "notify e w dev uploadResult s =
     (case (TELEGRAM_BOT_TOKEN e, TELEGRAM_CHAT_ID e) of
        (Some tgToken, Some tgChat) \<Rightarrow>
          if tgToken \<noteq> [] \<and> tgChat \<noteq> [] then
            (let caption = ''Visitor at '' @ dev @ '' '' @ em_dash @ '' '' @ now_locale w;
                 tgUrl = ''https://api.telegram.org/bot'' @ tgToken @ ''/sendPhoto'';
                 s1 = s\<lparr>calls := calls s @
                         [AxiosPost tgUrl tgChat (secure_url uploadResult) caption]\<rparr>
             in case tg_out w of
                  None \<Rightarrow> s1
                | Some tgErr \<Rightarrow>
                    s1\<lparr>console := console s1 @ [WarnTelegramFailed (err_brief tgErr)]\<rparr>)
          else s
      | _ \<Rightarrow> s)"

definition date_or :: "int option \<Rightarrow> int \<Rightarrow> int" where
  \<comment> \<open>\<open>date || fallback\<close>: a Date object is truthy whenever it is there\<close>
  "date_or d fallback = (case d of Some t \<Rightarrow> t | None \<Rightarrow> fallback)"

definition upload_fields :: "upload_result \<Rightarrow> (string \<times> json) list" where
  "upload_fields uploadResult =
     [(''ok'', JBool True),
      (''url'', JStr (secure_url uploadResult)),
      (''public_id'', JStr (public_id uploadResult)),
      (''width'', JNum (width uploadResult)),
      (''height'', JNum (height uploadResult)),
      (''bytes'', JNum (bytes uploadResult))]"

definition saved_fields :: "image_doc option \<Rightarrow> (string \<times> json) list" where
  \<comment> \<open>\<open>if (savedDoc) { resp.imageId = ...; resp.savedAt = ... }\<close>\<close>
  "saved_fields savedDoc =
     (case savedDoc of
        None \<Rightarrow> []
      | Some d \<Rightarrow>
          [(''imageId'', JOid (img_id d)),
           (''savedAt'', JDate (date_or (Some (img_createdAt d)) (getTimestamp (img_id d))))])"

definition upload_handler :: "env \<Rightarrow> outcomes \<Rightarrow> request \<Rightarrow> sys \<Rightarrow> response \<times> sys" where
  \<comment> \<open>\<open>app.post("/upload", ...)\<close> of \<open>app.js\<close>\<close>
  "upload_handler e w req s =
     (let s0 = s\<lparr>console := console s @ [LogReceived]\<rparr>
      in if unauthorized e req then
           (\<lparr>res_status = 401,
             res_json = JObj [(''error'', JStr ''Unauthorized: invalid api key'')]\<rparr>, s0)
         else if no_image (body req) then
           (\<lparr>res_status = 400, res_json = JObj [(''error'', JStr ''No image uploaded'')]\<rparr>, s0)
         else
           (let folder = ''esp32/'' @ deviceId req;
                s1 = s0\<lparr>calls := calls s0 @ [CloudinaryUpload folder (body req)]\<rparr>
            in case cloud_out w of
                 Inl err \<Rightarrow>
                   (\<lparr>res_status = 500, res_json = JObj [(''error'', JStr (err_string err))]\<rparr>,
                    s1\<lparr>console := console s1 @ [ErrorUpload err]\<rparr>)
               | Inr uploadResult \<Rightarrow>
                   (let (savedDoc, s2) =
                          save_image w
                            \<lparr>ni_deviceId = deviceId req, ni_url = secure_url uploadResult,
                             ni_public_id = public_id uploadResult,
                             ni_width = width uploadResult,
                             ni_height = height uploadResult,
                             ni_bytes = bytes uploadResult\<rparr> s1;
                        s3 = notify e w (deviceId req) uploadResult s2
                    in (\<lparr>res_status = 200,
                         res_json = JObj (upload_fields uploadResult @ saved_fields savedDoc)\<rparr>,
                        s3))))"

definition upload_handler_v0 :: "env \<Rightarrow> outcomes \<Rightarrow> request \<Rightarrow> sys \<Rightarrow> response \<times> sys" where
  \<comment> \<open>the variant of the server without the metadata store\<close>
  "upload_handler_v0 e w req s =
     (let s0 = s\<lparr>console := console s @ [LogReceived]\<rparr>
      in if unauthorized e req then
           (\<lparr>res_status = 401,
             res_json = JObj [(''error'', JStr ''Unauthorized: invalid api key'')]\<rparr>, s0)
         else if no_image (body req) then
           (\<lparr>res_status = 400, res_json = JObj [(''error'', JStr ''No image uploaded'')]\<rparr>, s0)
         else
           (let folder = ''esp32/'' @ deviceId req;
                s1 = s0\<lparr>calls := calls s0 @ [CloudinaryUpload folder (body req)]\<rparr>
            in case cloud_out w of
                 Inl err \<Rightarrow>
                   (\<lparr>res_status = 500, res_json = JObj [(''error'', JStr (err_string err))]\<rparr>,
                    s1\<lparr>console := console s1 @ [ErrorUpload err]\<rparr>)
               | Inr uploadResult \<Rightarrow>
                   (\<lparr>res_status = 200, res_json = JObj (upload_fields uploadResult)\<rparr>,
                    notify e w (deviceId req) uploadResult s1)))"

section \<open>GET /images\<close>

subsection \<open>\<open>parseInt(string, 10)\<close> and \<open>Math.min\<close>\<close>

definition is_ws :: "char \<Rightarrow> bool" where
  \<comment> \<open>white space that \<open>parseInt\<close> skips, among the characters below 256:
      TAB, LF, VT, FF, CR, space, NBSP\<close>
  "is_ws c = (c \<in> set [CHR 0x09, CHR 0x0A, CHR 0x0B, CHR 0x0C, CHR 0x0D, CHR 0x20, CHR 0xA0])"

definition is_digit :: "char \<Rightarrow> bool" where
  "is_digit c = (c \<in> set ''0123456789'')"

definition digit_val :: "char \<Rightarrow> int" where
  "digit_val c = int (of_char c) - 48"

definition digits_val :: "string \<Rightarrow> int" where
  "digits_val Z = foldl (\<lambda>a c. 10 * a + digit_val c) 0 Z"

definition parseInt :: "string \<Rightarrow> jsnum" where
  \<comment> \<open>radix 10: skip white space, take a sign, read the longest prefix of decimal
      digits; no digit at all gives NaN\<close>
  "parseInt str =
     (let S = dropWhile is_ws str;
          sign = (case S of c # _ \<Rightarrow> if c = CHR ''-'' then - 1 else 1 | [] \<Rightarrow> (1::int));
          S' = (case S of c # r \<Rightarrow> if c = CHR ''-'' \<or> c = CHR ''+'' then r else S | [] \<Rightarrow> S);
          Z = takeWhile is_digit S'
      in if Z = [] then NaN else Num (sign * digits_val Z))"

definition Math_min :: "jsnum \<Rightarrow> jsnum \<Rightarrow> jsnum" where
  \<comment> \<open>NaN as soon as one argument is NaN\<close>
  "Math_min a b =
     (case a of
        NaN \<Rightarrow> NaN
      | Num x \<Rightarrow> (case b of NaN \<Rightarrow> NaN | Num y \<Rightarrow> Num (min x y)))"

definition limit :: "images_request \<Rightarrow> jsnum" where
  \<comment> \<open>\<open>Math.min(100, parseInt(req.query.limit || "20", 10))\<close>\<close>
  "limit req =
     Math_min (Num 100) (parseInt (to_String (q_or_default (query_value req ''limit'') ''20'')))"

definition filter_deviceId :: "images_request \<Rightarrow> qval option" where
  \<comment> \<open>\<open>const filter = {}; if (req.query.deviceId) filter.deviceId = req.query.deviceId\<close>:
      \<open>None\<close> is the empty filter; the value is copied as it is, whatever its type\<close>
  "filter_deviceId req =
     (if truthy_q (query_value req ''deviceId'') then query_value req ''deviceId'' else None)"

subsection \<open>The query on the Image collection\<close>

text \<open>
  \<open>Image.find(filter).sort({createdAt: -1}).limit(n).select({...}).lean()\<close> is a
  MongoDB query; it is modelled on the list of stored documents by the documented
  meaning of each stage: the match on the filter's path, descending sort on
  \<open>createdAt\<close>, the limit, and an inclusion projection, which keeps \<open>_id\<close> and the
  listed paths. A string in the filter is matched by equality, an array by membership
  (Mongoose casts it to \<open>$in\<close>), and an operator object as the database decides
  (\<open>op_match\<close>). Documents with equal \<open>createdAt\<close> keep their stored order here; MongoDB
  leaves their order open. A limit of 0 means no limit, a negative limit counts as
  its absolute value; a NaN limit is taken as no limit (what it does is not fixed by
  this repository, and no statement below rests on it).
\<close>

definition opt_field :: "string \<Rightarrow> ('a \<Rightarrow> json) \<Rightarrow> 'a option \<Rightarrow> (string \<times> json) list" where
  "opt_field k f v = (case v of None \<Rightarrow> [] | Some x \<Rightarrow> [(k, f x)])"

definition to_bson :: "image_doc \<Rightarrow> (string \<times> json) list" where
  "to_bson d =
     [(''_id'', JOid (img_id d)),
      (''deviceId'', JStr (img_deviceId d)),
      (''url'', JStr (img_url d))]
     @ opt_field ''public_id'' JStr (img_public_id d)
     @ opt_field ''width'' JNum (img_width d)
     @ opt_field ''height'' JNum (img_height d)
     @ opt_field ''bytes'' JNum (img_bytes d)
     @ [(''createdAt'', JDate (img_createdAt d)),
        (''updatedAt'', JDate (img_updatedAt d)),
        (''__v'', JNum (int (img_v d)))]"

definition matches :: "outcomes \<Rightarrow> qval option \<Rightarrow> image_doc \<Rightarrow> bool" where
  "matches w flt d =
     (case flt of
        None \<Rightarrow> True
      | Some (QStr x) \<Rightarrow> img_deviceId d = x
      | Some (QArr xs) \<Rightarrow> img_deviceId d \<in> set xs
      | Some (QObj ops) \<Rightarrow> op_match w ops d)"

definition sort_createdAt_desc :: "image_doc list \<Rightarrow> image_doc list" where
  "sort_createdAt_desc ds = sort_key (\<lambda>d. - img_createdAt d) ds"

definition apply_limit :: "jsnum \<Rightarrow> 'a list \<Rightarrow> 'a list" where
  "apply_limit n xs =
     (case n of
        NaN \<Rightarrow> xs
      | Num k \<Rightarrow> if k = 0 then xs else take (nat \<bar>k\<bar>) xs)"

definition select_paths :: "string list \<Rightarrow> (string \<times> json) list \<Rightarrow> (string \<times> json) list" where
  "select_paths paths doc = filter (\<lambda>(k, v). k = ''_id'' \<or> k \<in> set paths) doc"

definition Image_find ::
  "outcomes \<Rightarrow> qval option \<Rightarrow> jsnum \<Rightarrow> string list \<Rightarrow> image_doc list \<Rightarrow> js_error + json list" where
  "Image_find w flt n paths db =
     (case find_out w of
        Some err \<Rightarrow> Inl err
      | None \<Rightarrow>
          Inr (map (\<lambda>d. JObj (select_paths paths (to_bson d)))
                 (apply_limit n (sort_createdAt_desc (filter (matches w flt) db)))))"

definition selected :: "string list" where
  \<comment> \<open>the argument of \<open>.select\<close>\<close>
  "selected = [''url'', ''deviceId'', ''createdAt'', ''public_id'', ''width'', ''height'', ''bytes'']"

definition images_handler :: "outcomes \<Rightarrow> images_request \<Rightarrow> sys \<Rightarrow> response \<times> sys" where
  \<comment> \<open>\<open>app.get("/images", ...)\<close>\<close>
  "images_handler w req s =
     (let s1 = s\<lparr>calls := calls s @ [ImageFind (filter_deviceId req) (limit req)]\<rparr>
      in case Image_find w (filter_deviceId req) (limit req) selected (store s) of
           Inr docs \<Rightarrow>
             (\<lparr>res_status = 200, res_json = JObj [(''ok'', JBool True), (''images'', JArr docs)]\<rparr>,
              s1)
         | Inl err \<Rightarrow>
             (\<lparr>res_status = 500,
               res_json = JObj [(''ok'', JBool False), (''error'', JStr (err_string err))]\<rparr>,
              s1\<lparr>console := console s1 @ [ErrorImages err]\<rparr>))"

subsection \<open>Reading a response\<close>

definition json_field :: "string \<Rightarrow> json \<Rightarrow> json option" where
  "json_field k j = (case j of JObj fs \<Rightarrow> map_of fs k | _ \<Rightarrow> None)"

definition json_keys :: "json \<Rightarrow> string list" where
  "json_keys j = (case j of JObj fs \<Rightarrow> map fst fs | _ \<Rightarrow> [])"

definition images_of :: "response \<Rightarrow> json list option" where
  \<comment> \<open>the \<open>images\<close> array of a response body, when it has one\<close>
  "images_of r =
     (case json_field ''images'' (res_json r) of Some (JArr xs) \<Rightarrow> Some xs | _ \<Rightarrow> None)"

section \<open>Concrete requests and answers\<close>

text \<open>
  The scenario of the specification: key \<open>secret123\<close>, device \<open>esp32-1\<close>, a JPEG
  body, and the storage answer \<open>https://cdn/x.jpg\<close>, 640 by 480, 51200 bytes.
\<close>

definition env1 :: env where
  "env1 = \<lparr>DEVICE_API_KEY = Some ''secret123'', TELEGRAM_BOT_TOKEN = Some ''123:abc'',
           TELEGRAM_CHAT_ID = Some ''42''\<rparr>"

definition env_nokey :: env where
  "env_nokey = \<lparr>DEVICE_API_KEY = None, TELEGRAM_BOT_TOKEN = None, TELEGRAM_CHAT_ID = None\<rparr>"

definition req_ok :: request where
  "req_ok = \<lparr>headers = [''x-api-key'' \<mapsto> ''secret123'', ''x-device-id'' \<mapsto> ''esp32-1''],
             query = Map.empty, body = BodyBuffer [0xFF, 0xD8, 0xFF]\<rparr>"

definition req_badkey :: request where
  "req_badkey = \<lparr>headers = [''x-api-key'' \<mapsto> ''guess''], query = Map.empty,
                 body = BodyBuffer [0xFF, 0xD8, 0xFF]\<rparr>"

definition up1 :: upload_result where
  "up1 = \<lparr>secure_url = ''https://cdn/x.jpg'', public_id = ''esp32/esp32-1/abc'',
          width = 640, height = 480, bytes = 51200\<rparr>"

definition err_cloud :: js_error where
  "err_cloud = JsError ''Error: upstream'' (Some ''upstream'')"

definition err_mongo :: js_error where
  "err_mongo = JsError ''MongoServerError: down'' (Some ''down'')"

definition w_ok :: outcomes where
  "w_ok = \<lparr>cloud_out = Inr up1, save_out = Inr (ObjectId 1700000000 7, 1700000000123),
           tg_out = None, find_out = None, now_locale = ''1/1/2025, 10:00:00 am'',
           op_match = (\<lambda>ops d. True)\<rparr>"

definition w_cloud_fail :: outcomes where
  "w_cloud_fail = w_ok\<lparr>cloud_out := Inl err_cloud\<rparr>"

definition w_save_fail :: outcomes where
  "w_save_fail = w_ok\<lparr>save_out := Inl err_mongo\<rparr>"

definition doc1 :: image_doc where
  "doc1 = \<lparr>img_id = ObjectId 1 1, img_deviceId = ''esp32-1'', img_url = ''https://cdn/a.jpg'',
           img_public_id = Some ''esp32/esp32-1/a'', img_width = Some 640,
           img_height = Some 480, img_bytes = Some 100,
           img_createdAt = 1000, img_updatedAt = 1000, img_v = 0\<rparr>"

definition doc2 :: image_doc where
  "doc2 = \<lparr>img_id = ObjectId 2 2, img_deviceId = ''esp32-2'', img_url = ''https://cdn/b.jpg'',
           img_public_id = None, img_width = None, img_height = None, img_bytes = None,
           img_createdAt = 2000, img_updatedAt = 2000, img_v = 0\<rparr>"

definition s_empty :: sys where
  "s_empty = \<lparr>store = [], calls = [], console = []\<rparr>"

definition s_one :: sys where
  "s_one = \<lparr>store = [doc2], calls = [], console = []\<rparr>"

definition s_two :: sys where
  "s_two = \<lparr>store = [doc1, doc2], calls = [], console = []\<rparr>"

definition req_list :: "string \<Rightarrow> string \<Rightarrow> images_request" where
  \<comment> \<open>\<open>GET /images?k=v\<close>\<close>
  "req_list k v =
     \<lparr>headers = Map.empty, query = [k \<mapsto> v], body = BodyUndefined, nested = Map.empty\<rparr>"

definition req_list_twice :: images_request where
  \<comment> \<open>\<open>GET /images?deviceId=esp32-1&deviceId=esp32-2\<close>\<close>
  "req_list_twice =
     \<lparr>headers = Map.empty, query = Map.empty, body = BodyUndefined,
      nested = [''deviceId'' \<mapsto> QArr [''esp32-1'', ''esp32-2'']]\<rparr>"

definition req_absent :: request where
  \<comment> \<open>a valid key and no body at all, as it reaches the handler on Express 4\<close>
  "req_absent = \<lparr>headers = [''x-api-key'' \<mapsto> ''secret123''], query = Map.empty,
                 body = BodyObject None\<rparr>"

definition env_plain :: env where
  \<comment> \<open>no Telegram configuration\<close>
  "env_plain = \<lparr>DEVICE_API_KEY = Some ''secret123'', TELEGRAM_BOT_TOKEN = None,
                TELEGRAM_CHAT_ID = None\<rparr>"

section \<open>Evaluation rules\<close>

lemmas fix_defs = env1_def env_nokey_def req_ok_def req_badkey_def up1_def
  err_cloud_def err_mongo_def w_ok_def w_cloud_fail_def w_save_fail_def doc1_def doc2_def
  s_empty_def s_one_def s_two_def req_list_def req_list_twice_def req_absent_def env_plain_def

lemmas upload_defs = upload_handler_def upload_handler_v0_def unauthorized_def Let_def

lemmas js_defs = apiKey_def deviceId_def js_or_def truthy_def or_default_def no_image_def

lemmas persist_defs = save_image_def notify_def upload_fields_def saved_fields_def date_or_def

lemmas limit_defs = limit_def Math_min_def parseInt_def q_or_default_def truthy_q_def
  query_value_def to_String_def is_ws_def is_digit_def digits_val_def digit_val_def Let_def

lemmas find_defs = images_handler_def Image_find_def images_of_def json_field_def json_keys_def
  filter_deviceId_def matches_def sort_createdAt_desc_def apply_limit_def
  select_paths_def selected_def to_bson_def opt_field_def

section \<open>POST /upload: the four exits\<close>

lemma unauthorized_exit:
  assumes "unauthorized e req"
  shows "upload_handler e w req s =
           (\<lparr>res_status = 401,
              res_json = JObj [(''error'', JStr ''Unauthorized: invalid api key'')]\<rparr>,
            s\<lparr>console := console s @ [LogReceived]\<rparr>)"
    and "upload_handler_v0 e w req s =
           (\<lparr>res_status = 401,
              res_json = JObj [(''error'', JStr ''Unauthorized: invalid api key'')]\<rparr>,
            s\<lparr>console := console s @ [LogReceived]\<rparr>)"
  using assms by (simp_all add: upload_handler_def upload_handler_v0_def Let_def)

lemma no_image_exit:
  assumes "\<not> unauthorized e req" and "no_image (body req)"
  shows "upload_handler e w req s =
           (\<lparr>res_status = 400, res_json = JObj [(''error'', JStr ''No image uploaded'')]\<rparr>,
            s\<lparr>console := console s @ [LogReceived]\<rparr>)"
    and "upload_handler_v0 e w req s =
           (\<lparr>res_status = 400, res_json = JObj [(''error'', JStr ''No image uploaded'')]\<rparr>,
            s\<lparr>console := console s @ [LogReceived]\<rparr>)"
  using assms by (simp_all add: upload_handler_def upload_handler_v0_def Let_def)

lemma storage_failure_exit:
  assumes "\<not> unauthorized e req" and "\<not> no_image (body req)" and "cloud_out w = Inl err"
  shows "upload_handler e w req s =
           (\<lparr>res_status = 500, res_json = JObj [(''error'', JStr (err_string err))]\<rparr>,
            s\<lparr>console := console s @ [LogReceived, ErrorUpload err],
               calls := calls s @ [CloudinaryUpload (''esp32/'' @ deviceId req) (body req)]\<rparr>)"
  using assms by (simp add: upload_handler_def Let_def)

lemma notify_store: "store (notify e w dev up s) = store s"
  by (simp add: notify_def Let_def split: option.splits)

lemma valid_key_authorized:
  "truthy (apiKey req) \<Longrightarrow> apiKey req = DEVICE_API_KEY e \<Longrightarrow> \<not> unauthorized e req"
  by (simp add: unauthorized_def)

lemma no_secret_unauthorized:
  assumes "DEVICE_API_KEY e = None \<or> DEVICE_API_KEY e = Some []"
  shows "unauthorized e req"
proof (cases "truthy (apiKey req)")
  case False
  then show ?thesis by (simp add: unauthorized_def)
next
  case True
  then obtain k where "apiKey req = Some k" and "k \<noteq> []"
    by (auto simp: truthy_def split: option.splits)
  with assms show ?thesis by (auto simp: unauthorized_def)
qed

section \<open>GET /images: the stages of the query\<close>

lemma map_of_filter_key:
  "map_of (filter (\<lambda>(k, v). P k) xs) k = (if P k then map_of xs k else None)"
  by (induction xs) auto

lemma to_bson_createdAt: "map_of (to_bson d) ''createdAt'' = Some (JDate (img_createdAt d))"
  by (simp add: to_bson_def opt_field_def split: option.splits)


lemma projected_createdAt:
  "json_field ''createdAt'' (JObj (select_paths selected (to_bson d))) =
     Some (JDate (img_createdAt d))"
  by (simp add: json_field_def select_paths_def map_of_filter_key to_bson_createdAt selected_def)


lemma projected_keys:
  "set (json_keys (JObj (select_paths selected (to_bson d)))) \<subseteq> set (''_id'' # selected)"
  by (auto simp: json_keys_def select_paths_def)

lemma projected_no_internal:
  "''updatedAt'' \<notin> set (json_keys (JObj (select_paths selected (to_bson d))))
   \<and> ''__v'' \<notin> set (json_keys (JObj (select_paths selected (to_bson d))))"
  by (auto simp: json_keys_def select_paths_def selected_def)

lemma projected_has_id:
  "''_id'' \<in> set (json_keys (JObj (select_paths selected (to_bson d))))"
  by (simp add: json_keys_def select_paths_def to_bson_def)

lemma sort_createdAt_desc_sorted:
  "sorted_wrt (\<ge>) (map img_createdAt (sort_createdAt_desc ds))"
proof -
  have "sorted (map (\<lambda>d. - img_createdAt d) (sort_createdAt_desc ds))"
    unfolding sort_createdAt_desc_def by (rule sorted_sort_key)
  then show ?thesis by (simp add: sorted_wrt_map)
qed


lemma apply_limit_sorted:
  "sorted_wrt R (map f xs) \<Longrightarrow> sorted_wrt R (map f (apply_limit n xs))"
  by (cases n) (auto simp: apply_limit_def take_map [symmetric] sorted_wrt_take)


lemma apply_limit_length: "0 < k \<Longrightarrow> length (apply_limit (Num k) xs) \<le> nat k"
  by (simp add: apply_limit_def)

lemma images_of_handler:
  "images_of (fst (images_handler w req s)) = Some arr \<Longrightarrow>
   arr = map (\<lambda>d. JObj (select_paths selected (to_bson d)))
           (apply_limit (limit req)
             (sort_createdAt_desc (filter (matches w (filter_deviceId req)) (store s))))"
  by (auto simp: images_handler_def Image_find_def images_of_def json_field_def Let_def
           split: option.splits sum.splits)



lemma limit_five: "query req ''limit'' = Some ''5'' \<Longrightarrow> limit req = Num 5"
  by (simp add: limit_defs)

lemma limit_default: "\<not> truthy_q (query_value req ''limit'') \<Longrightarrow> limit req = Num 20"
  by (auto simp: limit_def q_or_default_def to_String_def Math_min_def parseInt_def is_ws_def
        is_digit_def digits_val_def digit_val_def Let_def split: option.splits)

lemma limit_missing:
  "query req ''limit'' = None \<Longrightarrow> nested req ''limit'' = None \<Longrightarrow> limit req = Num 20"
  by (rule limit_default) (simp add: query_value_def truthy_q_def)

lemma limit_at_most_100: "limit req = Num n \<Longrightarrow> n \<le> 100"
  by (auto simp: limit_def Math_min_def split: jsnum.splits)

lemma limit_above_100:
  assumes "query req ''limit'' = Some str" and "parseInt str = Num n" and "100 < n"
  shows "limit req = Num 100"
proof -
  have "str \<noteq> []" using assms(2) by (auto simp: parseInt_def)
  then show ?thesis
    using assms
    by (simp add: limit_def q_or_default_def truthy_q_def query_value_def to_String_def
          Math_min_def)
qed

lemma limit_NaN:
  assumes "query req ''limit'' = Some str" and "str \<noteq> []" and "parseInt str = NaN"
  shows "limit req = NaN"
  using assms
  by (simp add: limit_def q_or_default_def truthy_q_def query_value_def to_String_def
        Math_min_def)

section \<open>Claims about POST /upload\<close>

text \<open>
  C1. When the API key of the request (the header \<open>x-api-key\<close>, else the query
  parameter \<open>apiKey\<close>) is missing or differs from the configured secret, both variants
  of the upload handler answer 401 with the JSON error body, and they call no collaborator:
  the list of collaborator calls and the metadata store are as before.
\<close>

theorem upload_rejects_bad_key:
  assumes "\<not> truthy (apiKey req) \<or> apiKey req \<noteq> DEVICE_API_KEY e"
  shows "res_status (fst (upload_handler e w req s)) = 401
       \<and> res_json (fst (upload_handler e w req s)) =
           JObj [(''error'', JStr ''Unauthorized: invalid api key'')]
       \<and> calls (snd (upload_handler e w req s)) = calls s
       \<and> store (snd (upload_handler e w req s)) = store s
       \<and> res_status (fst (upload_handler_v0 e w req s)) = 401
       \<and> res_json (fst (upload_handler_v0 e w req s)) =
           JObj [(''error'', JStr ''Unauthorized: invalid api key'')]
       \<and> calls (snd (upload_handler_v0 e w req s)) = calls s
       \<and> store (snd (upload_handler_v0 e w req s)) = store s"
proof -
  have "unauthorized e req" using assms by (simp add: unauthorized_def)
  then show ?thesis by (simp add: unauthorized_exit)
qed

theorem upload_rejects_bad_key_witness:
  "apiKey req_badkey = Some ''guess''
   \<and> apiKey req_badkey \<noteq> DEVICE_API_KEY env1
   \<and> res_status (fst (upload_handler env1 w_ok req_badkey s_empty)) = 401
   \<and> calls (snd (upload_handler env1 w_ok req_badkey s_empty)) = []
   \<and> store (snd (upload_handler env1 w_ok req_badkey s_empty)) = []
   \<and> res_status (fst (upload_handler_v0 env1 w_ok req_badkey s_empty)) = 401
   \<and> calls (snd (upload_handler_v0 env1 w_ok req_badkey s_empty)) = []"
  using upload_rejects_bad_key [of req_badkey env1 w_ok s_empty]
  by (simp add: fix_defs js_defs)

text \<open>
  C2. With a valid key and a body that passes the payload check, a failure of the storage
  call gives 500 with the error's description; the metadata store is unchanged, and the
  only collaborator call made is the upload itself (no save, no notification).
\<close>

theorem upload_storage_failure:
  assumes "truthy (apiKey req)" and "apiKey req = DEVICE_API_KEY e"
    and "\<not> no_image (body req)"
    and "cloud_out w = Inl err"
  shows "res_status (fst (upload_handler e w req s)) = 500
       \<and> res_json (fst (upload_handler e w req s)) = JObj [(''error'', JStr (err_string err))]
       \<and> store (snd (upload_handler e w req s)) = store s
       \<and> calls (snd (upload_handler e w req s)) =
           calls s @ [CloudinaryUpload (''esp32/'' @ deviceId req) (body req)]"
proof -
  have "\<not> unauthorized e req" using assms(1,2) by (rule valid_key_authorized)
  then show ?thesis using assms(3,4) by (simp add: storage_failure_exit)
qed

theorem upload_storage_failure_witness:
  "truthy (apiKey req_ok) \<and> apiKey req_ok = DEVICE_API_KEY env1
   \<and> \<not> no_image (body req_ok) \<and> cloud_out w_cloud_fail = Inl err_cloud
   \<and> res_status (fst (upload_handler env1 w_cloud_fail req_ok s_empty)) = 500
   \<and> res_json (fst (upload_handler env1 w_cloud_fail req_ok s_empty)) =
       JObj [(''error'', JStr ''Error: upstream'')]
   \<and> store (snd (upload_handler env1 w_cloud_fail req_ok s_empty)) = []
   \<and> calls (snd (upload_handler env1 w_cloud_fail req_ok s_empty)) =
       [CloudinaryUpload ''esp32/esp32-1'' (BodyBuffer [0xFF, 0xD8, 0xFF])]"
  using upload_storage_failure [of req_ok env1 w_cloud_fail err_cloud s_empty]
  by (simp add: fix_defs js_defs)

text \<open>
  C3. When the storage call succeeds and the save of the metadata fails, the answer is
  still 200 and its body is exactly ok, url, \<open>public_id\<close>, width, height, bytes from the
  storage result: there is no imageId and no savedAt, and the store is unchanged.
\<close>

theorem upload_persistence_failure:
  assumes "truthy (apiKey req)" and "apiKey req = DEVICE_API_KEY e"
    and "\<not> no_image (body req)"
    and "cloud_out w = Inr up" and "save_out w = Inl err"
  shows "res_status (fst (upload_handler e w req s)) = 200
       \<and> res_json (fst (upload_handler e w req s)) =
           JObj [(''ok'', JBool True), (''url'', JStr (secure_url up)),
                 (''public_id'', JStr (public_id up)), (''width'', JNum (width up)),
                 (''height'', JNum (height up)), (''bytes'', JNum (bytes up))]
       \<and> json_field ''imageId'' (res_json (fst (upload_handler e w req s))) = None
       \<and> json_field ''savedAt'' (res_json (fst (upload_handler e w req s))) = None
       \<and> store (snd (upload_handler e w req s)) = store s"
proof -
  have "\<not> unauthorized e req" using assms(1,2) by (rule valid_key_authorized)
  then show ?thesis
    using assms(3,4,5)
    by (simp add: upload_handler_def save_image_def Let_def upload_fields_def saved_fields_def
          json_field_def notify_store)
qed

theorem upload_persistence_failure_witness:
  "truthy (apiKey req_ok) \<and> apiKey req_ok = DEVICE_API_KEY env1
   \<and> \<not> no_image (body req_ok)
   \<and> cloud_out w_save_fail = Inr up1 \<and> save_out w_save_fail = Inl err_mongo
   \<and> res_status (fst (upload_handler env1 w_save_fail req_ok s_empty)) = 200
   \<and> res_json (fst (upload_handler env1 w_save_fail req_ok s_empty)) =
       JObj [(''ok'', JBool True), (''url'', JStr ''https://cdn/x.jpg''),
             (''public_id'', JStr ''esp32/esp32-1/abc''), (''width'', JNum 640),
             (''height'', JNum 480), (''bytes'', JNum 51200)]
   \<and> store (snd (upload_handler env1 w_save_fail req_ok s_empty)) = []"
  using upload_persistence_failure [of req_ok env1 w_save_fail up1 err_mongo s_empty]
  by (simp add: fix_defs js_defs)

text \<open>
  C4. With a valid key and a body that passes the payload check, when the storage call
  and the save both succeed, the answer is 200 and its body is ok, url, \<open>public_id\<close>, width,
  height, bytes from the storage result, then imageId, the identifier of the saved
  document, and savedAt, its creation time; that document is the one added to the store.
\<close>

theorem upload_success:
  assumes "truthy (apiKey req)" and "apiKey req = DEVICE_API_KEY e"
    and "\<not> no_image (body req)"
    and "cloud_out w = Inr up" and "save_out w = Inr (oid, t)"
  shows "res_status (fst (upload_handler e w req s)) = 200
       \<and> res_json (fst (upload_handler e w req s)) =
           JObj [(''ok'', JBool True), (''url'', JStr (secure_url up)),
                 (''public_id'', JStr (public_id up)), (''width'', JNum (width up)),
                 (''height'', JNum (height up)), (''bytes'', JNum (bytes up)),
                 (''imageId'', JOid oid), (''savedAt'', JDate t)]
       \<and> (\<exists>d. store (snd (upload_handler e w req s)) = store s @ [d]
              \<and> img_id d = oid \<and> img_createdAt d = t
              \<and> img_url d = secure_url up \<and> img_deviceId d = deviceId req)"
proof -
  have "\<not> unauthorized e req" using assms(1,2) by (rule valid_key_authorized)
  then show ?thesis
    using assms(3,4,5)
    by (simp add: upload_handler_def save_image_def Let_def upload_fields_def saved_fields_def
          date_or_def notify_store)
qed

theorem upload_success_witness:
  "truthy (apiKey req_ok) \<and> apiKey req_ok = DEVICE_API_KEY env1
   \<and> \<not> no_image (body req_ok)
   \<and> cloud_out w_ok = Inr up1 \<and> save_out w_ok = Inr (ObjectId 1700000000 7, 1700000000123)
   \<and> res_status (fst (upload_handler env1 w_ok req_ok s_empty)) = 200
   \<and> res_json (fst (upload_handler env1 w_ok req_ok s_empty)) =
       JObj [(''ok'', JBool True), (''url'', JStr ''https://cdn/x.jpg''),
             (''public_id'', JStr ''esp32/esp32-1/abc''), (''width'', JNum 640),
             (''height'', JNum 480), (''bytes'', JNum 51200),
             (''imageId'', JOid (ObjectId 1700000000 7)), (''savedAt'', JDate 1700000000123)]"
  using upload_success [of req_ok env1 w_ok up1 "ObjectId 1700000000 7" 1700000000123 s_empty]
  by (simp add: fix_defs js_defs)

text \<open>
  C9. With a valid key, a body that the handler's own test \<open>no_image\<close> recognises
  (\<open>req.body\<close> undefined, a Buffer of length 0) gives 400 and no collaborator call:
  \<open>no_image_exit\<close>. But a request that has no body at all reaches the handler on
  Express 4 with \<open>req.body = {}\<close>, which is neither falsy nor of length 0. There both
  variants of the handler go on to the storage call and answer by its outcome (200 when it
  succeeds) instead of 400.
\<close>

theorem upload_absent_body_accepted:
  "truthy (apiKey req_absent) \<and> apiKey req_absent = DEVICE_API_KEY env_plain
   \<and> body req_absent = BodyObject None
   \<and> \<not> no_image (body req_absent)
   \<and> res_status (fst (upload_handler env_plain w_ok req_absent s_empty)) = 200
   \<and> calls (snd (upload_handler env_plain w_ok req_absent s_empty)) =
       [CloudinaryUpload ''esp32/unknown_device'' (BodyObject None),
        ImageSave \<lparr>ni_deviceId = ''unknown_device'', ni_url = ''https://cdn/x.jpg'',
                   ni_public_id = ''esp32/esp32-1/abc'', ni_width = 640, ni_height = 480,
                   ni_bytes = 51200\<rparr>]
   \<and> length (store (snd (upload_handler env_plain w_ok req_absent s_empty))) = 1
   \<and> res_status (fst (upload_handler_v0 env_plain w_ok req_absent s_empty)) = 200
   \<and> calls (snd (upload_handler_v0 env_plain w_ok req_absent s_empty)) =
       [CloudinaryUpload ''esp32/unknown_device'' (BodyObject None)]"
  by (simp add: fix_defs js_defs upload_defs persist_defs)

text \<open>
  C10. When \<open>DEVICE_API_KEY\<close> is unset or the empty string, both variants of the
  upload handler answer 401 to every request, whatever key it carries, and call no
  collaborator.
\<close>

theorem upload_rejects_all_without_secret:
  assumes "DEVICE_API_KEY e = None \<or> DEVICE_API_KEY e = Some []"
  shows "res_status (fst (upload_handler e w req s)) = 401
       \<and> calls (snd (upload_handler e w req s)) = calls s
       \<and> res_status (fst (upload_handler_v0 e w req s)) = 401
       \<and> calls (snd (upload_handler_v0 e w req s)) = calls s"
proof -
  have "unauthorized e req" using assms by (rule no_secret_unauthorized)
  then show ?thesis by (simp add: unauthorized_exit)
qed

theorem upload_rejects_all_without_secret_witness:
  "DEVICE_API_KEY env_nokey = None
   \<and> apiKey req_ok = Some ''secret123''
   \<and> res_status (fst (upload_handler env_nokey w_ok req_ok s_empty)) = 401
   \<and> calls (snd (upload_handler env_nokey w_ok req_ok s_empty)) = []
   \<and> res_status (fst (upload_handler_v0 env_nokey w_ok req_ok s_empty)) = 401
   \<and> calls (snd (upload_handler_v0 env_nokey w_ok req_ok s_empty)) = []"
  using upload_rejects_all_without_secret [of env_nokey w_ok req_ok s_empty]
  by (simp add: fix_defs js_defs)

section \<open>Claims about GET /images\<close>

text \<open>
  C5. The effective limit: values above 100 are clamped to 100 (\<open>limit_above_100\<close>,
  \<open>limit_at_most_100\<close>) and a missing limit gives 20 (\<open>limit_default\<close>); but a
  non-numeric value does not fall back to 20. For \<open>GET /images?limit=abc\<close> the
  handler computes NaN and hands NaN to the query.
\<close>

theorem images_limit_non_numeric:
  "query (req_list ''limit'' ''abc'') ''limit'' = Some ''abc''
   \<and> limit (req_list ''limit'' ''abc'') = NaN
   \<and> limit (req_list ''limit'' ''abc'') \<noteq> Num 20
   \<and> calls (snd (images_handler w_ok (req_list ''limit'' ''abc'') s_two)) = [ImageFind None NaN]"
  by (simp add: req_list_def s_two_def limit_defs images_handler_def Image_find_def
        filter_deviceId_def split: sum.splits)

text \<open>
  C6, as the code has it. Every record of the returned array has only keys among
  \<open>_id\<close> and the seven selected paths url, deviceId, createdAt, \<open>public_id\<close>, width,
  height, bytes; \<open>updatedAt\<close> and \<open>__v\<close> are never returned.
\<close>

theorem images_projection:
  assumes "images_of (fst (images_handler w req s)) = Some arr" and "j \<in> set arr"
  shows "set (json_keys j) \<subseteq>
           set [''_id'', ''url'', ''deviceId'', ''createdAt'', ''public_id'', ''width'',
                ''height'', ''bytes'']
       \<and> ''updatedAt'' \<notin> set (json_keys j) \<and> ''__v'' \<notin> set (json_keys j)"
proof -
  from assms obtain d where "j = JObj (select_paths selected (to_bson d))"
    by (auto dest!: images_of_handler)
  then show ?thesis
    using projected_keys [of d] projected_no_internal [of d] by (simp add: selected_def)
qed

theorem images_projection_witness:
  "images_of (fst (images_handler w_ok (req_list ''limit'' ''5'') s_one)) =
     Some [JObj [(''_id'', JOid (ObjectId 2 2)), (''deviceId'', JStr ''esp32-2''),
                 (''url'', JStr ''https://cdn/b.jpg''), (''createdAt'', JDate 2000)]]
   \<and> ''updatedAt'' \<notin> set (json_keys
        (JObj [(''_id'', JOid (ObjectId 2 2)), (''deviceId'', JStr ''esp32-2''),
               (''url'', JStr ''https://cdn/b.jpg''), (''createdAt'', JDate 2000)]))
   \<and> ''__v'' \<notin> set (json_keys
        (JObj [(''_id'', JOid (ObjectId 2 2)), (''deviceId'', JStr ''esp32-2''),
               (''url'', JStr ''https://cdn/b.jpg''), (''createdAt'', JDate 2000)]))"
  using images_projection [of w_ok "req_list ''limit'' ''5''" s_one
      "[JObj [(''_id'', JOid (ObjectId 2 2)), (''deviceId'', JStr ''esp32-2''),
              (''url'', JStr ''https://cdn/b.jpg''), (''createdAt'', JDate 2000)]]"
      "JObj [(''_id'', JOid (ObjectId 2 2)), (''deviceId'', JStr ''esp32-2''),
             (''url'', JStr ''https://cdn/b.jpg''), (''createdAt'', JDate 2000)]"]
  by (simp add: fix_defs find_defs limit_defs)

text \<open>
  C6 as stated fails: the record returned for a stored document carries \<open>_id\<close>,
  which is not among url, deviceId, createdAt, publicId, width, height, bytes.
\<close>

theorem images_projection_counterexample:
  "images_of (fst (images_handler w_ok (req_list ''limit'' ''5'') s_one)) =
     Some [JObj [(''_id'', JOid (ObjectId 2 2)), (''deviceId'', JStr ''esp32-2''),
                 (''url'', JStr ''https://cdn/b.jpg''), (''createdAt'', JDate 2000)]]
   \<and> ''_id'' \<in> set (json_keys
        (JObj [(''_id'', JOid (ObjectId 2 2)), (''deviceId'', JStr ''esp32-2''),
               (''url'', JStr ''https://cdn/b.jpg''), (''createdAt'', JDate 2000)]))
   \<and> ''_id'' \<notin> set [''url'', ''deviceId'', ''createdAt'', ''publicId'', ''public_id'',
                     ''width'', ''height'', ''bytes'']"
  by (simp add: fix_defs find_defs limit_defs)

text \<open>
  C7. For \<open>GET /images?limit=5\<close>, whatever the other parameters and the stored
  documents, a returned array has at most 5 records, and their createdAt values are
  non-increasing.
\<close>

theorem images_limit_five_sorted:
  assumes "query req ''limit'' = Some ''5''"
    and "images_of (fst (images_handler w req s)) = Some arr"
  shows "length arr \<le> 5
       \<and> (\<exists>ts. map (json_field ''createdAt'') arr = map (\<lambda>t. Some (JDate t)) ts
               \<and> sorted_wrt (\<ge>) ts)"
proof -
  let ?ds = "apply_limit (limit req)
               (sort_createdAt_desc (filter (matches w (filter_deviceId req)) (store s)))"
  have arr: "arr = map (\<lambda>d. JObj (select_paths selected (to_bson d))) ?ds"
    using assms(2) by (rule images_of_handler)
  have lim: "limit req = Num 5" using assms(1) by (rule limit_five)
  have "length ?ds \<le> 5" using apply_limit_length [of 5] by (simp add: lim)
  then have len: "length arr \<le> 5" by (simp add: arr)
  have srt: "sorted_wrt (\<ge>) (map img_createdAt ?ds)"
    by (rule apply_limit_sorted) (rule sort_createdAt_desc_sorted)
  have "map (json_field ''createdAt'') arr = map (\<lambda>t. Some (JDate t)) (map img_createdAt ?ds)"
    by (simp add: arr projected_createdAt comp_def)
  with srt len show ?thesis by blast
qed

theorem images_limit_five_sorted_witness:
  "query (req_list ''limit'' ''5'') ''limit'' = Some ''5''
   \<and> images_of (fst (images_handler w_ok (req_list ''limit'' ''5'') s_two)) =
       Some [JObj [(''_id'', JOid (ObjectId 2 2)), (''deviceId'', JStr ''esp32-2''),
                   (''url'', JStr ''https://cdn/b.jpg''), (''createdAt'', JDate 2000)],
             JObj [(''_id'', JOid (ObjectId 1 1)), (''deviceId'', JStr ''esp32-1''),
                   (''url'', JStr ''https://cdn/a.jpg''),
                   (''public_id'', JStr ''esp32/esp32-1/a''), (''width'', JNum 640),
                   (''height'', JNum 480), (''bytes'', JNum 100), (''createdAt'', JDate 1000)]]
   \<and> (\<exists>ts. [Some (JDate 2000), Some (JDate 1000)] = map (\<lambda>t. Some (JDate t)) ts
           \<and> sorted_wrt (\<ge>) ts)"
  using images_limit_five_sorted [of "req_list ''limit'' ''5''" w_ok s_two
      "[JObj [(''_id'', JOid (ObjectId 2 2)), (''deviceId'', JStr ''esp32-2''),
              (''url'', JStr ''https://cdn/b.jpg''), (''createdAt'', JDate 2000)],
        JObj [(''_id'', JOid (ObjectId 1 1)), (''deviceId'', JStr ''esp32-1''),
              (''url'', JStr ''https://cdn/a.jpg''),
              (''public_id'', JStr ''esp32/esp32-1/a''), (''width'', JNum 640),
              (''height'', JNum 480), (''bytes'', JNum 100), (''createdAt'', JDate 1000)]]"]
  by (simp add: fix_defs find_defs limit_defs)




text \<open>
  The repeated parameter: \<open>GET /images?deviceId=esp32-1&deviceId=esp32-2\<close> returns the
  records of both devices, so a record of \<open>esp32-2\<close> comes back for a request that
  carries the value \<open>esp32-1\<close>.
\<close>

lemma images_deviceId_repeated_example:
  "nested req_list_twice ''deviceId'' = Some (QArr [''esp32-1'', ''esp32-2''])
   \<and> map (json_field ''deviceId'')
        (case images_of (fst (images_handler w_ok req_list_twice s_two)) of
           Some arr \<Rightarrow> arr | None \<Rightarrow> []) =
       [Some (JStr ''esp32-2''), Some (JStr ''esp32-1'')]"
  by (simp add: fix_defs find_defs limit_defs)

end
